theory Spec2Isabelle
  imports Complex_Main "HOL-Library.Product_Lexorder" "HOL-Library.Monad_Syntax"
begin

section \<open>Scalars and vectors\<close>

text \<open>
  A C++ \<open>float\<close> is modelled by its value: not-a-number, the two infinities, or a
  finite number. Every comparison with \<open>NaN\<close> is false, as in IEEE 754. Finite
  arithmetic is exact: rounding and the sign of zero are not modelled, and no result below
  depends on them. A C++ \<open>int\<close> is modelled by \<open>int\<close>; signed overflow has no meaning in
  C++ and is not modelled.
\<close>

datatype float = NaN | NegInf | Fin real | PosInf

type_synonym Vector2i = "int \<times> int"
type_synonym Vector3i = "int \<times> int \<times> int"
type_synonym Vector3f = "float \<times> float \<times> float"

fun isnan :: "float \<Rightarrow> bool" where
  "isnan NaN = True"
| "isnan _ = False"

text \<open>\<open>flt a b\<close> is the C++ test \<open>a < b\<close> on floats.\<close>

fun flt :: "float \<Rightarrow> float \<Rightarrow> bool" where
  "flt NaN _ = False"
| "flt _ NaN = False"
| "flt NegInf NegInf = False"
| "flt NegInf _ = True"
| "flt (Fin a) (Fin b) = (a < b)"
| "flt (Fin a) PosInf = True"
| "flt (Fin a) NegInf = False"
| "flt PosInf _ = False"

text \<open>\<open>fle a b\<close> is \<open>a <= b\<close>, \<open>fgt a b\<close> is \<open>a > b\<close>.\<close>

definition fle :: "float \<Rightarrow> float \<Rightarrow> bool" where
  "fle a b = (\<not> isnan a \<and> \<not> isnan b \<and> \<not> flt b a)"

definition fgt :: "float \<Rightarrow> float \<Rightarrow> bool" where
  "fgt a b = flt b a"

text \<open>\<open>fadd a b\<close> is \<open>a + b\<close>: the sum of opposite infinities is not a number.\<close>

fun fadd :: "float \<Rightarrow> float \<Rightarrow> float" where
  "fadd NaN _ = NaN"
| "fadd _ NaN = NaN"
| "fadd NegInf PosInf = NaN"
| "fadd PosInf NegInf = NaN"
| "fadd NegInf _ = NegInf"
| "fadd _ NegInf = NegInf"
| "fadd PosInf _ = PosInf"
| "fadd _ PosInf = PosInf"
| "fadd (Fin a) (Fin b) = Fin (a + b)"

text \<open>
  \<open>fsub a b\<close> is \<open>a - b\<close> and \<open>fdiv a b\<close> is \<open>a / b\<close>; a zero divisor is taken
  as \<open>+0\<close>.
\<close>

fun fneg :: "float \<Rightarrow> float" where
  "fneg NaN = NaN"
| "fneg NegInf = PosInf"
| "fneg (Fin a) = Fin (- a)"
| "fneg PosInf = NegInf"

definition fsub :: "float \<Rightarrow> float \<Rightarrow> float" where
  "fsub a b = fadd a (fneg b)"

fun fdiv :: "float \<Rightarrow> float \<Rightarrow> float" where
  "fdiv NaN _ = NaN"
| "fdiv _ NaN = NaN"
| "fdiv (Fin a) (Fin b) =
     (if b = 0 then (if a = 0 then NaN else if 0 < a then PosInf else NegInf)
      else Fin (a / b))"
| "fdiv (Fin a) _ = Fin 0"
| "fdiv PosInf (Fin b) = (if 0 \<le> b then PosInf else NegInf)"
| "fdiv NegInf (Fin b) = (if 0 \<le> b then NegInf else PosInf)"
| "fdiv _ _ = NaN"

text \<open>
  \<open>floor\<close> followed by \<open>cast<int>\<close>: the conversion of a value that is not finite has
  no meaning in C++.
\<close>

fun floor_to_int :: "float \<Rightarrow> int option" where
  "floor_to_int (Fin a) = Some \<lfloor>a\<rfloor>"
| "floor_to_int _ = None"

text \<open>
  \<open>std::max\<close> and \<open>std::min\<close> of the host, by their definition through \<open><\<close>, and
  \<open>max\<close> and \<open>min\<close> of the device (\<open>fmaxf\<close>, \<open>fminf\<close>), which return the other
  argument when one is not a number.
\<close>

definition std_max :: "float \<Rightarrow> float \<Rightarrow> float" where
  "std_max a b = (if flt a b then b else a)"

definition std_min :: "float \<Rightarrow> float \<Rightarrow> float" where
  "std_min a b = (if flt b a then b else a)"

definition fmaxf :: "float \<Rightarrow> float \<Rightarrow> float" where
  "fmaxf a b = (if isnan a then b else if isnan b then a else if flt a b then b else a)"

definition fminf :: "float \<Rightarrow> float \<Rightarrow> float" where
  "fminf a b = (if isnan a then b else if isnan b then a else if flt b a then b else a)"

text \<open>\<open>Eigen::Vector3f::Ones()\<close>, the colour white.\<close>

definition Ones :: Vector3f where
  "Ones = (Fin 1, Fin 1, Fin 1)"

text \<open>\<open>reverse_index_functor\<close>: the edge with its two ends exchanged.\<close>

definition reverse_index :: "Vector2i \<Rightarrow> Vector2i" where
  "reverse_index e = (snd e, fst e)"

section \<open>Outcomes\<close>

text \<open>
  \<open>utility::LogError\<close> reports an error, and the method hands the object back as it is
  at that moment: \<open>Err e x\<close>. An access outside a vector, by an index computed from
  data or through an iterator of a vector that was not sized for what is written, has no
  meaning in C++: \<open>OutOfBounds\<close>, with no object. A call that completes is \<open>Ok x\<close>.
\<close>

datatype error = EmptyGraph | SizeMismatch | NotConstructed

datatype 'a result = Ok 'a | Err error 'a | OutOfBounds

section \<open>The bulk primitives\<close>

text \<open>
  The thrust algorithms are modelled by the sequence they produce. Where the destination of
  an algorithm has been sized for the result beforehand, the algorithm followed by a
  \<open>resize\<close> to the number of elements written is the assignment of the result
  sequence. Where it has not, the elements that do not fit are written outside the vector.
\<close>

text \<open>\<open>v.resize(n, x)\<close>: cut to \<open>n\<close> elements, or pad with \<open>x\<close>.\<close>

definition resize :: "'a list \<Rightarrow> nat \<Rightarrow> 'a \<Rightarrow> 'a list" where
  "resize xs n x = (if n \<le> length xs then take n xs else xs @ replicate (n - length xs) x)"

text \<open>
  \<open>thrust::fill(v.begin() + from, v.end(), x)\<close>, for \<open>from\<close> not past the end.
\<close>

definition fill_from :: "'a list \<Rightarrow> nat \<Rightarrow> 'a \<Rightarrow> 'a list" where
  "fill_from xs from x = take from xs @ replicate (length xs - from) x"

text \<open>
  \<open>thrust::sort_by_key(keys, values)\<close>: the keys are sorted and every value moves with
  its key. The order of the values of equal keys is fixed here as the stable one.
\<close>

definition sort_by_key :: "('k \<Rightarrow> 'o::linorder) \<Rightarrow> 'k list \<Rightarrow> 'v list \<Rightarrow> 'k list \<times> 'v list" where
  "sort_by_key ord ks vs =
     (let ps = sort_key (\<lambda>p. ord (fst p)) (zip ks vs)
      in (map fst ps, map snd ps))"

text \<open>
  \<open>thrust::reduce_by_key\<close>: each run of consecutive equal keys gives one key and the
  reduction of its values, from left to right.
\<close>

fun reduce_run :: "('v \<Rightarrow> 'v \<Rightarrow> 'v) \<Rightarrow> 'k \<Rightarrow> 'v \<Rightarrow> ('k \<times> 'v) list \<Rightarrow> ('k \<times> 'v) list" where
  "reduce_run f k acc [] = [(k, acc)]"
| "reduce_run f k acc ((k', v) # kvs) =
     (if k' = k then reduce_run f k (f acc v) kvs
      else (k, acc) # reduce_run f k' v kvs)"

fun reduce_by_key :: "('v \<Rightarrow> 'v \<Rightarrow> 'v) \<Rightarrow> ('k \<times> 'v) list \<Rightarrow> ('k \<times> 'v) list" where
  "reduce_by_key f [] = []"
| "reduce_by_key f ((k, v) # kvs) = reduce_run f k v kvs"

text \<open>
  \<open>thrust::gather(map, input, result)\<close>: \<open>result[i] = input[map[i]]\<close> for every
  position \<open>i\<close> of the map; the rest of \<open>result\<close> stays. A map entry outside the input,
  or a map longer than the result, is an access outside a vector: \<open>None\<close>.
\<close>

definition gather :: "int list \<Rightarrow> 'a list \<Rightarrow> 'a list \<Rightarrow> 'a list option" where
  "gather m input res =
     (if length m \<le> length res \<and> list_all (\<lambda>j. 0 \<le> j \<and> nat j < length input) m
      then Some (map (\<lambda>j. input ! nat j) m @ drop (length m) res)
      else None)"

text \<open>\<open>thrust::exclusive_scan\<close> with sum, starting from \<open>acc\<close>.\<close>

fun exclusive_scan :: "int \<Rightarrow> int list \<Rightarrow> int list" where
  "exclusive_scan acc [] = []"
| "exclusive_scan acc (x # xs) = acc # exclusive_scan (acc + x) xs"

section \<open>The graph\<close>

text \<open>
  The fields of \<open>Graph\<close> and of its base class \<open>LineSet\<close> that the operations below
  read or write.
\<close>

record Graph =
  points :: "Vector3f list"
  lines :: "Vector2i list"
  colors :: "Vector3f list"
  edge_index_offsets :: "int list"
  edge_weights :: "float list"
  node_colors :: "Vector3f list"
  is_directed :: bool

text \<open>
  Modelled from the spec: \<open>HasColors\<close> (declared in lineset.h), \<open>HasWeights\<close>,
  \<open>HasNodeColors\<close> and \<open>IsConstructed\<close> (declared in graph.h) are not among the
  sources. A side array is present when it is row-aligned with the sequence it annotates
  (``parallel to edges, same length'', ``parallel to vertices''); the graph is constructed
  when the offsets have length \<open>n + 1\<close> and the weights are row-aligned with the edges.
\<close>

definition HasColors :: "Graph \<Rightarrow> bool" where
  "HasColors g = (lines g \<noteq> [] \<and> length (colors g) = length (lines g))"

definition HasWeights :: "Graph \<Rightarrow> bool" where
  "HasWeights g = (edge_weights g \<noteq> [] \<and> length (edge_weights g) = length (lines g))"

definition HasNodeColors :: "Graph \<Rightarrow> bool" where
  "HasNodeColors g = (node_colors g \<noteq> [] \<and> length (node_colors g) = length (points g))"

definition IsConstructed :: "Graph \<Rightarrow> bool" where
  "IsConstructed g =
     (length (edge_index_offsets g) = length (points g) + 1 \<and>
      length (edge_weights g) = length (lines g))"

text \<open>A graph with vertices and no edges, as the constructors leave it.\<close>

definition empty_graph :: "Vector3f list \<Rightarrow> bool \<Rightarrow> Graph" where
  "empty_graph pts directed =
     \<lparr>points = pts, lines = [], colors = [], edge_index_offsets = [],
      edge_weights = [], node_colors = [], is_directed = directed\<rparr>"

subsection \<open>ConstructGraph\<close>

text \<open>
  The first half of \<open>ConstructGraph\<close>: the edges are sorted, with the side arrays that
  are present; the weights are filled with 1.0 only where neither weights nor colours are
  present.
\<close>

definition sort_edges :: "Graph \<Rightarrow> Graph" where
  "sort_edges g =
     (let has_colors = HasColors g; has_weights = HasWeights g in
      if has_colors \<and> has_weights then
        (let (ls, wcs) = sort_by_key id (lines g) (zip (edge_weights g) (colors g))
         in g\<lparr>lines := ls, edge_weights := map fst wcs, colors := map snd wcs\<rparr>)
      else if \<not> has_colors \<and> has_weights then
        (let (ls, ws) = sort_by_key id (lines g) (edge_weights g)
         in g\<lparr>lines := ls, edge_weights := ws\<rparr>)
      else if has_colors \<and> \<not> has_weights then
        (let (ls, cs) = sort_by_key id (lines g) (colors g)
         in g\<lparr>lines := ls, colors := cs\<rparr>)
      else
        g\<lparr>lines := sort (lines g),
          edge_weights := resize (edge_weights g) (length (lines g)) (Fin 1)\<rparr>)"

text \<open>
  The second half: the offsets are resized to \<open>n + 1\<close> (new entries 0), the number of
  edges of every distinct source is counted, \<open>gather\<close> copies \<open>counts[indices[i]]\<close> to
  position \<open>i\<close> of the offsets, and the offsets are scanned.
\<close>

definition build_offsets :: "Graph \<Rightarrow> int list option" where
  "build_offsets g =
     (let offs = resize (edge_index_offsets g) (length (points g) + 1) 0;
          runs = reduce_by_key (+) (map (\<lambda>l. (fst l, 1)) (lines g));
          indices = map fst runs;
          counts = map snd runs
      in case gather indices counts offs of
           None \<Rightarrow> None
         | Some offs' \<Rightarrow> Some (exclusive_scan 0 offs'))"

definition ConstructGraph :: "Graph \<Rightarrow> Graph result" where
  "ConstructGraph g =
     (if lines g = [] then Err EmptyGraph g
      else
        (let g1 = sort_edges g in
         case build_offsets g1 of
           None \<Rightarrow> OutOfBounds
         | Some offs \<Rightarrow> Ok (g1\<lparr>edge_index_offsets := offs\<rparr>)))"

subsection \<open>AddEdge and AddEdges\<close>

definition AddEdge :: "Graph \<Rightarrow> Vector2i \<Rightarrow> float \<Rightarrow> Graph result" where
  "AddEdge g edge weight =
     (let g1 = g\<lparr>lines := lines g @ [edge], edge_weights := edge_weights g @ [weight]\<rparr>;
          g2 = (if \<not> is_directed g1
                then g1\<lparr>lines := lines g1 @ [(snd edge, fst edge)],
                        edge_weights := edge_weights g1 @ [weight]\<rparr>
                else g1);
          g3 = (if HasColors g2
                then (if \<not> is_directed g2
                      then g2\<lparr>colors := colors g2 @ [Ones] @ [Ones]\<rparr>
                      else g2\<lparr>colors := colors g2 @ [Ones]\<rparr>)
                else g2)
      in ConstructGraph g3)"

definition AddEdges :: "Graph \<Rightarrow> Vector2i list \<Rightarrow> float list \<Rightarrow> Graph result" where
  "AddEdges g edges weights =
     (if weights \<noteq> [] \<and> length edges \<noteq> length weights then Err SizeMismatch g
      else
        (let n_old_lines = length (lines g);
             g1 = g\<lparr>lines := lines g @ edges\<rparr>;
             g2 = (if \<not> is_directed g1
                   then g1\<lparr>lines := lines g1 @ map reverse_index edges\<rparr>
                   else g1);
             g3 = (if weights = [] then
                     (let ws = (if \<not> is_directed g2
                                then resize (edge_weights g2) (2 * length (lines g2)) (Fin 0)
                                else resize (edge_weights g2) (length (lines g2)) (Fin 0))
                      in g2\<lparr>edge_weights := fill_from ws n_old_lines (Fin 1)\<rparr>)
                   else
                     (let ws = edge_weights g2 @ weights
                      in g2\<lparr>edge_weights :=
                              (if \<not> is_directed g2 then ws @ weights else ws)\<rparr>));
             g4 = (if HasColors g3
                   then g3\<lparr>colors :=
                           fill_from (resize (colors g3) (length (lines g3)) (Fin 0, Fin 0, Fin 0))
                             n_old_lines Ones\<rparr>
                   else g3)
         in ConstructGraph g4))"

subsection \<open>RemoveEdge and RemoveEdges\<close>

text \<open>The test \<open>check_edge\<close> of \<open>RemoveEdge\<close>, and \<open>thrust::remove_if\<close> as a filter.\<close>

definition check_edge :: "Vector2i \<Rightarrow> bool \<Rightarrow> Vector2i \<Rightarrow> bool" where
  "check_edge edge directed l = (l = edge \<or> (\<not> directed \<and> l = (snd edge, fst edge)))"

definition RemoveEdge :: "Graph \<Rightarrow> Vector2i \<Rightarrow> Graph result" where
  "RemoveEdge g edge =
     (let has_colors = HasColors g; has_weights = HasWeights g;
          g1 =
            (if has_colors \<and> has_weights then
               (let rows = filter (\<lambda>x. \<not> check_edge edge (is_directed g) (fst x))
                             (zip (lines g) (zip (edge_weights g) (colors g)))
                in g\<lparr>lines := map fst rows, edge_weights := map (\<lambda>x. fst (snd x)) rows,
                      colors := map (\<lambda>x. snd (snd x)) rows\<rparr>)
             else if has_colors \<and> \<not> has_weights then
               (let rows = filter (\<lambda>x. \<not> check_edge edge (is_directed g) (fst x))
                             (zip (lines g) (colors g))
                in g\<lparr>lines := map fst rows, colors := map snd rows\<rparr>)
             else if \<not> has_colors \<and> has_weights then
               (let rows = filter (\<lambda>x. \<not> check_edge edge (is_directed g) (fst x))
                             (zip (lines g) (edge_weights g))
                in g\<lparr>lines := map fst rows, edge_weights := map snd rows\<rparr>)
             else
               g\<lparr>lines := filter (\<lambda>l. \<not> check_edge edge (is_directed g) l) (lines g)\<rparr>)
      in ConstructGraph g1)"

text \<open>
  \<open>thrust::set_difference\<close> with the comparison \<open>lt\<close>, as the merge that defines
  it: an element of the first range is copied when \<open>lt\<close> puts it in front of the
  current element of the second range, and dropped together with that element when
  \<open>lt\<close> orders the two in neither way.
\<close>

fun set_difference :: "('a \<Rightarrow> 'a \<Rightarrow> bool) \<Rightarrow> 'a list \<Rightarrow> 'a list \<Rightarrow> 'a list" where
  "set_difference lt [] ys = []"
| "set_difference lt (x # xs) [] = x # xs"
| "set_difference lt (x # xs) (y # ys) =
     (if lt x y then x # set_difference lt xs (y # ys)
      else if lt y x then set_difference lt (x # xs) ys
      else set_difference lt xs ys)"

text \<open>
  \<open>RemoveEdges\<close> declares \<open>new_lines\<close>, \<open>new_weights\<close> and \<open>new_colors\<close> without
  elements and never sizes them before a set difference is written through their
  \<open>begin()\<close>: a difference with an element is written outside the vector, and only
  the empty one fits.
\<close>

definition into_unsized :: "'a list \<Rightarrow> 'a list option" where
  "into_unsized r = (if r = [] then Some [] else None)"

text \<open>
  The comparison \<open>cmp\<close> stands for
  \<open>tuple_element_compare_functor<..., 0, thrust::greater<Eigen::Vector2i>>\<close> on the edge
  component of two rows; geometry_functor.h is not among the sources, so it is a parameter.
  Each branch writes the first difference from the start of the new arrays and resizes
  them to its length; in an undirected graph it then writes a second difference, of the
  \<^emph>\<open>original\<close> rows against the reversed edges, again from the start of the new arrays,
  and resizes them to its length. The new arrays that a branch does not name stay empty,
  and all three are swapped into the graph before \<open>ConstructGraph\<close> is called.
\<close>

definition RemoveEdges ::
    "(Vector2i \<Rightarrow> Vector2i \<Rightarrow> bool) \<Rightarrow> Graph \<Rightarrow> Vector2i list \<Rightarrow> Graph result" where
  "RemoveEdges cmp g edges =
     (let has_colors = HasColors g; has_weights = HasWeights g;
          sorted_edges = sort edges;
          cnst_w = Fin 1; cnst_c = Ones;
          new_arrays =
            (if has_colors \<and> has_weights then
               (let func = (\<lambda>a b. cmp (fst a) (fst b));
                    rows = zip (lines g) (zip (edge_weights g) (colors g));
                    end1 = set_difference func rows
                             (map (\<lambda>e. (e, cnst_w, cnst_c)) sorted_edges);
                    end2 = set_difference func rows
                             (map (\<lambda>e. (reverse_index e, cnst_w, cnst_c)) sorted_edges)
                in do {
                     r1 \<leftarrow> into_unsized end1;
                     r2 \<leftarrow> (if \<not> is_directed g then into_unsized end2 else Some r1);
                     Some (map fst r2, map (\<lambda>x. fst (snd x)) r2, map (\<lambda>x. snd (snd x)) r2)
                   })
             else if has_colors \<and> \<not> has_weights then
               (let func = (\<lambda>a b. cmp (fst a) (fst b));
                    rows = zip (lines g) (colors g);
                    end1 = set_difference func rows (map (\<lambda>e. (e, cnst_c)) sorted_edges);
                    end2 = set_difference func rows
                             (map (\<lambda>e. (reverse_index e, cnst_c)) sorted_edges)
                in do {
                     r1 \<leftarrow> into_unsized end1;
                     r2 \<leftarrow> (if \<not> is_directed g then into_unsized end2 else Some r1);
                     Some (map fst r2, [], map snd r2)
                   })
             else if \<not> has_colors \<and> has_weights then
               (let func = (\<lambda>a b. cmp (fst a) (fst b));
                    rows = zip (lines g) (edge_weights g);
                    end1 = set_difference func rows (map (\<lambda>e. (e, cnst_w)) sorted_edges);
                    end2 = set_difference func rows
                             (map (\<lambda>e. (reverse_index e, cnst_w)) sorted_edges)
                in do {
                     r1 \<leftarrow> into_unsized end1;
                     r2 \<leftarrow> (if \<not> is_directed g then into_unsized end2 else Some r1);
                     Some (map fst r2, map snd r2, [])
                   })
             else
               (let end1 = set_difference (<) (lines g) sorted_edges;
                    end2 = set_difference (<) (lines g) (map reverse_index sorted_edges)
                in do {
                     r1 \<leftarrow> into_unsized end1;
                     r2 \<leftarrow> (if \<not> is_directed g then into_unsized end2 else Some r1);
                     Some (r2, [], [])
                   }))
      in case new_arrays of
           None \<Rightarrow> OutOfBounds
         | Some (new_lines, new_weights, new_colors) \<Rightarrow>
             ConstructGraph
               (g\<lparr>lines := new_lines, edge_weights := new_weights, colors := new_colors\<rparr>))"

subsection \<open>PaintNodeColor and PaintNodesColor\<close>

text \<open>\<open>replace_colors_functor\<close>: \<open>colors_[idx] = color_\<close>.\<close>

definition replace_colors :: "Vector3f \<Rightarrow> Vector3f list \<Rightarrow> nat \<Rightarrow> Vector3f list" where
  "replace_colors color cs idx = cs[idx := color]"

definition PaintNodeColor :: "Graph \<Rightarrow> int \<Rightarrow> Vector3f \<Rightarrow> Graph result" where
  "PaintNodeColor g node color =
     (let g1 = (if \<not> HasNodeColors g
                then g\<lparr>node_colors := resize (node_colors g) (length (points g)) Ones\<rparr>
                else g)
      in if 0 \<le> node \<and> nat node < length (node_colors g1)
         then Ok (g1\<lparr>node_colors := (node_colors g1)[nat node := color]\<rparr>)
         else OutOfBounds)"

text \<open>
  \<open>PaintNodesColor\<close> applies the functor to the counting range from 0 to the number of
  listed nodes.
\<close>

definition PaintNodesColor :: "Graph \<Rightarrow> int list \<Rightarrow> Vector3f \<Rightarrow> Graph result" where
  "PaintNodesColor g nodes color =
     (let g1 = (if \<not> HasNodeColors g
                then g\<lparr>node_colors := resize (node_colors g) (length (points g)) Ones\<rparr>
                else g)
      in if length nodes \<le> length (node_colors g1)
         then Ok (g1\<lparr>node_colors :=
                       foldl (replace_colors color) (node_colors g1) [0..<length nodes]\<rparr>)
         else OutOfBounds)"

subsection \<open>Sequences of mutations\<close>

datatype mutation =
    CallAddEdge Vector2i float
  | CallAddEdges "Vector2i list" "float list"
  | CallRemoveEdge Vector2i
  | CallRemoveEdges "Vector2i list"

fun call :: "(Vector2i \<Rightarrow> Vector2i \<Rightarrow> bool) \<Rightarrow> Graph \<Rightarrow> mutation \<Rightarrow> Graph result" where
  "call cmp g (CallAddEdge e w) = AddEdge g e w"
| "call cmp g (CallAddEdges es ws) = AddEdges g es ws"
| "call cmp g (CallRemoveEdge e) = RemoveEdge g e"
| "call cmp g (CallRemoveEdges es) = RemoveEdges cmp g es"


text \<open>The weights are row-aligned with the edges, and there are no edge colours.\<close>

definition aligned :: "Graph \<Rightarrow> bool" where
  "aligned g = (length (edge_weights g) = length (lines g) \<and> colors g = [])"

subsection \<open>DijkstraPaths\<close>

text \<open>
  Modelled from the spec: \<open>SSSPResult\<close> is declared in graph.h, which is not among the
  sources. One result per vertex, initially distance \<open>+\<infinity>\<close> and predecessor \<open>-1\<close>.
\<close>

record SSSPResult =
  shortest_distance :: float
  prev_index :: int

definition SSSPResult_init :: SSSPResult where
  "SSSPResult_init = \<lparr>shortest_distance = PosInf, prev_index = -1\<rparr>"

text \<open>Reading and writing a vector at an index computed from data.\<close>

definition read_at :: "'a list \<Rightarrow> int \<Rightarrow> 'a option" where
  "read_at xs i = (if 0 \<le> i \<and> nat i < length xs then Some (xs ! nat i) else None)"

definition write_at :: "'a list \<Rightarrow> int \<Rightarrow> 'a \<Rightarrow> 'a list option" where
  "write_at xs i x = (if 0 \<le> i \<and> nat i < length xs then Some (xs[nat i := x]) else None)"

text \<open>
  \<open>thrust::for_each\<close>: the functor is applied to every element, in no fixed order; the
  model takes the order of the list. In \<open>DijkstraPaths\<close> and \<open>PaintNodesColor\<close> the
  applications to different elements touch different slots, so the order does not matter;
  the property of \<open>AddVoxels\<close> below is proved for every list, hence for every order.
\<close>

fun for_each :: "('s \<Rightarrow> 'a \<Rightarrow> 's option) \<Rightarrow> 's \<Rightarrow> 'a list \<Rightarrow> 's option" where
  "for_each f s [] = Some s"
| "for_each f s (x # xs) = (case f s x of None \<Rightarrow> None | Some s' \<Rightarrow> for_each f s' xs)"

text \<open>The vectors that the loop of \<open>DijkstraPaths\<close> reads and writes.\<close>

record sssp_state =
  open_flags :: "int list"
  out :: "SSSPResult list"
  res_tmp :: "SSSPResult list"
  res_tmp_s :: "SSSPResult list"
  indices :: "int list"
  nt :: nat

text \<open>The body of the loop of \<open>relax_functor\<close> for edge row \<open>j\<close>.\<close>

definition relax_edge :: "Graph \<Rightarrow> int list \<Rightarrow> sssp_state \<Rightarrow> int \<Rightarrow> sssp_state option" where
  "relax_edge g edge_table st j =
     do {
       l \<leftarrow> read_at (lines g) j;
       let k = fst l;
       r \<leftarrow> read_at (out st) k;
       w \<leftarrow> read_at (edge_weights g) j;
       t \<leftarrow> read_at edge_table j;
       rt' \<leftarrow> write_at (res_tmp st) t
                \<lparr>shortest_distance = fadd (shortest_distance r) w, prev_index = k\<rparr>;
       Some (st\<lparr>res_tmp := rt'\<rparr>)
     }"

text \<open>\<open>relax_functor\<close>, applied to vertex \<open>idx\<close>.\<close>

definition relax_functor :: "Graph \<Rightarrow> int list \<Rightarrow> sssp_state \<Rightarrow> int \<Rightarrow> sssp_state option" where
  "relax_functor g edge_table st idx =
     do {
       flag \<leftarrow> read_at (open_flags st) idx;
       if flag = 0 then Some st
       else do {
         flags' \<leftarrow> write_at (open_flags st) idx 0;
         s_edge \<leftarrow> read_at (edge_index_offsets g) idx;
         e_edge \<leftarrow> read_at (edge_index_offsets g) (idx + 1);
         for_each (relax_edge g edge_table) (st\<lparr>open_flags := flags'\<rparr>) [s_edge..e_edge - 1]
       }
     }"

text \<open>\<open>update_shortest_distances_functor\<close>, applied to vertex \<open>idx\<close>.\<close>

definition update_shortest_distances_functor :: "sssp_state \<Rightarrow> int \<Rightarrow> sssp_state option" where
  "update_shortest_distances_functor st idx =
     do {
       r \<leftarrow> read_at (out st) idx;
       t \<leftarrow> read_at (res_tmp_s st) idx;
       if fgt (shortest_distance r) (shortest_distance t) then
         do {
           out' \<leftarrow> write_at (out st) idx t;
           flags' \<leftarrow> write_at (open_flags st) idx 1;
           Some (st\<lparr>out := out', open_flags := flags'\<rparr>)
         }
       else Some st
     }"

text \<open>
  \<open>compare_path_length_functor\<close>, and the number of listed vertices that satisfy it.
\<close>

definition compare_path_length_functor :: "sssp_state \<Rightarrow> int \<Rightarrow> int \<Rightarrow> bool option" where
  "compare_path_length_functor st end_node_index idx =
     do {
       flag \<leftarrow> read_at (open_flags st) idx;
       r \<leftarrow> read_at (out st) idx;
       e \<leftarrow> read_at (out st) end_node_index;
       Some (flag \<noteq> 0 \<and> flt (shortest_distance r) (shortest_distance e))
     }"

definition count_if :: "('a \<Rightarrow> bool option) \<Rightarrow> 'a list \<Rightarrow> nat option" where
  "count_if p xs =
     for_each (\<lambda>n x. case p x of None \<Rightarrow> None | Some b \<Rightarrow> Some (if b then Suc n else n)) 0 xs"

text \<open>
  One pass of the loop after its two tests: relax from the listed vertices; reduce the
  per-edge results by destination, which writes the distinct destinations to the front of
  \<open>indices\<close> and their minima, in the same positions, to the front of \<open>res_tmp_s\<close>;
  then commit at the listed destinations, reading \<open>res_tmp_s\<close> at the destination's
  own index.
\<close>

definition sssp_pass :: "Graph \<Rightarrow> Vector2i list \<Rightarrow> int list \<Rightarrow> sssp_state \<Rightarrow> sssp_state option" where
  "sssp_pass g sorted_lines edge_table st =
     do {
       st1 \<leftarrow> for_each (relax_functor g edge_table) st (take (nt st) (indices st));
       let runs = reduce_by_key
                    (\<lambda>lhs rhs. if fle (shortest_distance lhs) (shortest_distance rhs)
                                then lhs else rhs)
                    (zip (map snd sorted_lines) (res_tmp st1));
       if length runs \<le> length (indices st1) \<and> length runs \<le> length (res_tmp_s st1) then
         (let st2 = st1\<lparr>indices := map fst runs @ drop (length runs) (indices st1),
                         res_tmp_s := map snd runs @ drop (length runs) (res_tmp_s st1),
                         nt := length runs\<rparr>
          in for_each update_shortest_distances_functor st2 (take (nt st2) (indices st2)))
       else None
     }"

text \<open>
  The loop. No result (\<open>None\<close>) stands for a loop that does not end; an access outside a
  vector ends it with \<open>OutOfBounds\<close>.
\<close>

partial_function (option) sssp_loop ::
    "Graph \<Rightarrow> Vector2i list \<Rightarrow> int list \<Rightarrow> int \<Rightarrow> sssp_state \<Rightarrow> sssp_state result option" where
  "sssp_loop g sorted_lines edge_table end_node_index st =
     (if 1 \<notin> set (open_flags st) then Some (Ok st)
      else if 0 \<le> end_node_index then
        (case count_if (compare_path_length_functor st end_node_index)
                (take (nt st) (indices st)) of
           None \<Rightarrow> Some OutOfBounds
         | Some c \<Rightarrow>
             if c = 0 then Some (Ok st)
             else (case sssp_pass g sorted_lines edge_table st of
                     None \<Rightarrow> Some OutOfBounds
                   | Some st' \<Rightarrow> sssp_loop g sorted_lines edge_table end_node_index st'))
      else (case sssp_pass g sorted_lines edge_table st of
              None \<Rightarrow> Some OutOfBounds
            | Some st' \<Rightarrow> sssp_loop g sorted_lines edge_table end_node_index st'))"

declare sssp_loop.simps [code]

text \<open>
  \<open>thrust::scatter(values, map, output)\<close>: \<open>output[map[i]] = values[i]\<close>. Here the map
  is a permutation of the positions of the output.
\<close>

definition scatter :: "'a list \<Rightarrow> nat list \<Rightarrow> 'a list \<Rightarrow> 'a list" where
  "scatter vals m output = foldl (\<lambda>res (v, i). res[i := v]) output (zip vals m)"

definition DijkstraPaths :: "Graph \<Rightarrow> int \<Rightarrow> int \<Rightarrow> SSSPResult list result option" where
  "DijkstraPaths g start_node_index end_node_index =
     (let n = length (points g); out0 = replicate n SSSPResult_init in
      if \<not> IsConstructed g then Some (Err NotConstructed out0)
      else
        (let (sorted_lines, new_to_old_edge_table) =
               sort_by_key snd (lines g) [0..<length (lines g)];
             old_to_new_edge_table =
               scatter (map int [0..<length (lines g)]) new_to_old_edge_table
                 (replicate (length (lines g)) 0)
         in case write_at (replicate n 0) start_node_index 1 of
              None \<Rightarrow> Some OutOfBounds
            | Some flags \<Rightarrow>
                (case write_at out0 start_node_index
                        \<lparr>shortest_distance = Fin 0, prev_index = start_node_index\<rparr> of
                   None \<Rightarrow> Some OutOfBounds
                 | Some out1 \<Rightarrow>
                     (case sssp_loop g sorted_lines old_to_new_edge_table end_node_index
                             \<lparr>open_flags = flags, out = out1,
                              res_tmp = replicate (length (lines g)) SSSPResult_init,
                              res_tmp_s = replicate n SSSPResult_init,
                              indices = map int [0..<n], nt = n\<rparr> of
                        None \<Rightarrow> None
                      | Some (Ok st) \<Rightarrow> Some (Ok (out st))
                      | Some (Err e st) \<Rightarrow> Some (Err e (out st))
                      | Some OutOfBounds \<Rightarrow> Some OutOfBounds))))"

subsection \<open>A reference single-source shortest-path computation\<close>

text \<open>
  Dijkstra's algorithm as the textbooks give it, on the edge list with its weights: the
  unvisited vertex of least distance is settled and its outgoing edges are relaxed, until
  no unvisited vertex has a finite distance.
\<close>

fun closest :: "float list \<Rightarrow> nat list \<Rightarrow> nat option" where
  "closest ds [] = None"
| "closest ds (v # vs) =
     (case closest ds vs of
        None \<Rightarrow> (if flt (ds ! v) PosInf then Some v else None)
      | Some u \<Rightarrow> (if fle (ds ! v) (ds ! u) then Some v else Some u))"

definition relax_from :: "nat \<Rightarrow> float list \<Rightarrow> Vector2i \<times> float \<Rightarrow> float list" where
  "relax_from u ds ew =
     (let a = fst (fst ew); b = snd (fst ew) in
      if a = int u \<and> u < length ds \<and> 0 \<le> b \<and> nat b < length ds \<and>
         flt (fadd (ds ! u) (snd ew)) (ds ! nat b)
      then ds[nat b := fadd (ds ! u) (snd ew)]
      else ds)"

fun dijkstra_settle :: "nat \<Rightarrow> (Vector2i \<times> float) list \<Rightarrow> nat list \<Rightarrow> float list \<Rightarrow> float list" where
  "dijkstra_settle 0 ews unvisited ds = ds"
| "dijkstra_settle (Suc fuel) ews unvisited ds =
     (case closest ds unvisited of
        None \<Rightarrow> ds
      | Some u \<Rightarrow> dijkstra_settle fuel ews (removeAll u unvisited) (foldl (relax_from u) ds ews))"

definition reference_dijkstra :: "nat \<Rightarrow> Vector2i list \<Rightarrow> float list \<Rightarrow> nat \<Rightarrow> float list" where
  "reference_dijkstra n es ws s =
     dijkstra_settle n (zip es ws) [0..<n] ((replicate n PosInf)[s := Fin 0])"

subsection \<open>Concrete graphs\<close>

definition three_points :: "Vector3f list" where
  "three_points = [(Fin 0, Fin 0, Fin 0), (Fin 1, Fin 0, Fin 0), (Fin 0, Fin 1, Fin 0)]"

text \<open>The directed path from vertex 0 over vertex 1 to vertex 2, with unit weights.\<close>

definition directed_path :: Graph where
  "directed_path =
     \<lparr>points = three_points, lines = [(0, 1), (1, 2)], colors = [],
      edge_index_offsets = [0, 1, 2, 2], edge_weights = [Fin 1, Fin 1],
      node_colors = [], is_directed = True\<rparr>"

text \<open>
  The undirected path over the same vertices, each edge stored in both orientations
  (scenario 1 of the specification).
\<close>

definition undirected_path :: Graph where
  "undirected_path =
     \<lparr>points = three_points, lines = [(0, 1), (1, 0), (1, 2), (2, 1)], colors = [],
      edge_index_offsets = [0, 1, 3, 4], edge_weights = [Fin 1, Fin 1, Fin 1, Fin 1],
      node_colors = [], is_directed = False\<rparr>"

text \<open>
  The undirected graph that \<open>AddEdge\<close> builds from the edge \<open>(0, 1)\<close> with weight 1.
\<close>

definition single_edge :: Graph where
  "single_edge =
     \<lparr>points = three_points, lines = [(0, 1), (1, 0)], colors = [],
      edge_index_offsets = [0, 1, 2, 2], edge_weights = [Fin 1, Fin 1], node_colors = [],
      is_directed = False\<rparr>"

text \<open>One directed edge with a colour and without weights.\<close>

definition coloured_edge :: Graph where
  "coloured_edge =
     \<lparr>points = three_points, lines = [(0, 1)], colors = [Ones],
      edge_index_offsets = [], edge_weights = [], node_colors = [], is_directed = True\<rparr>"


section \<open>The occupancy grid\<close>

record OccupancyVoxel =
  grid_index :: Vector3i
  color :: Vector3f
  prob_log :: float

text \<open>
  The voxel that the default constructor builds: colour \<open>(0, 0, 1)\<close>, no observation.
  The grid index of a default \<open>Voxel\<close> is set in voxelgrid.h, which is not among the
  sources; it is taken as the zero vector and plays no role below.
\<close>

definition OccupancyVoxel_init :: OccupancyVoxel where
  "OccupancyVoxel_init =
     \<lparr>grid_index = (0, 0, 0), color = (Fin 0, Fin 0, Fin 1), prob_log = NaN\<rparr>"

record OccupancyGrid =
  voxel_size :: float
  resolution :: int
  origin :: Vector3f
  voxels :: "OccupancyVoxel list"
  clamping_thres_min :: float
  clamping_thres_max :: float
  prob_hit_log :: float
  prob_miss_log :: float
  occ_prob_thres_log :: float
  visualize_free_area :: bool

text \<open>
  Modelled from the spec: \<open>IndexOf\<close> is declared in densegrid.h, which is not among the
  sources. ``\<open>IndexOf(i,j,k, R) = i + j\<cdot>R + k\<cdot>R\<^sup>2\<close>''.
\<close>

definition IndexOf :: "Vector3i \<Rightarrow> int \<Rightarrow> int" where
  "IndexOf v r = fst v + fst (snd v) * r + snd (snd v) * r * r"

text \<open>
  Modelled from the spec: the constructor of \<open>DenseGrid\<close> is in densegrid.inl, which is
  not among the sources. ``The dense array is allocated up-front at \<open>resolution\<^sup>3\<close>'', every
  voxel unobserved; the log-odds parameters have the defaults of the class.
\<close>

definition OccupancyGrid_init :: "float \<Rightarrow> int \<Rightarrow> Vector3f \<Rightarrow> OccupancyGrid" where
  "OccupancyGrid_init vsize res org =
     \<lparr>voxel_size = vsize, resolution = res, origin = org,
      voxels = replicate (nat (res * res * res)) OccupancyVoxel_init,
      clamping_thres_min = Fin (- 2), clamping_thres_max = Fin 3.5,
      prob_hit_log = Fin 0.85, prob_miss_log = Fin (- 0.4),
      occ_prob_thres_log = Fin 0, visualize_free_area = True\<rparr>"

subsection \<open>Queries\<close>

text \<open>\<open>resolution_ / 2\<close>: integer division of C++ rounds towards zero.\<close>

definition half :: "int \<Rightarrow> int" where
  "half r = (if 0 \<le> r then r div 2 else - ((- r) div 2))"

text \<open>
  The grid coordinate of a point, as \<open>GetVoxelIndex\<close> computes it:
  \<open>floor((point - origin_) / voxel_size_)\<close> converted to integers, plus half the
  resolution in every component.
\<close>

definition grid_coordinate :: "OccupancyGrid \<Rightarrow> Vector3f \<Rightarrow> Vector3i option" where
  "grid_coordinate g point =
     (let (px, py, pz) = point; (ox, oy, oz) = origin g; h_res = half (resolution g) in
      do {
        i \<leftarrow> floor_to_int (fdiv (fsub px ox) (voxel_size g));
        j \<leftarrow> floor_to_int (fdiv (fsub py oy) (voxel_size g));
        k \<leftarrow> floor_to_int (fdiv (fsub pz oz) (voxel_size g));
        Some (i + h_res, j + h_res, k + h_res)
      })"

definition GetVoxelIndex :: "OccupancyGrid \<Rightarrow> Vector3f \<Rightarrow> int option" where
  "GetVoxelIndex g point =
     do {
       voxel_idx \<leftarrow> grid_coordinate g point;
       let idx = IndexOf voxel_idx (resolution g);
       if idx < 0 \<or> idx \<ge> resolution g * resolution g * resolution g then Some (- 1)
       else Some idx
     }"

definition IsOccupied :: "OccupancyGrid \<Rightarrow> Vector3f \<Rightarrow> bool option" where
  "IsOccupied g point =
     do {
       idx \<leftarrow> GetVoxelIndex g point;
       if idx < 0 then Some False
       else do {
         voxel \<leftarrow> read_at (voxels g) idx;
         Some (\<not> isnan (prob_log voxel) \<and> fgt (prob_log voxel) (occ_prob_thres_log g))
       }
     }"

definition IsUnknown :: "OccupancyGrid \<Rightarrow> Vector3f \<Rightarrow> bool option" where
  "IsUnknown g point =
     do {
       idx \<leftarrow> GetVoxelIndex g point;
       if idx < 0 then Some True
       else do {
         voxel \<leftarrow> read_at (voxels g) idx;
         Some (isnan (prob_log voxel))
       }
     }"

subsection \<open>Updates\<close>

text \<open>The conversion of an \<open>int\<close> to \<open>size_t\<close>.\<close>

definition to_size_t :: "int \<Rightarrow> int" where
  "to_size_t x = x mod 2 ^ 64"

text \<open>
  \<open>AddVoxel\<close> runs on the host: it ignores a voxel whose linear index is outside the
  array, and clamps with \<open>std::min\<close> and \<open>std::max\<close>.
\<close>

definition AddVoxel :: "OccupancyGrid \<Rightarrow> Vector3i \<Rightarrow> bool \<Rightarrow> OccupancyGrid option" where
  "AddVoxel g voxel occupied =
     (let idx = IndexOf voxel (resolution g);
          max_idx = to_size_t (resolution g * resolution g * resolution g)
      in if idx < 0 \<or> to_size_t idx \<ge> max_idx then Some g
         else do {
           org_ov \<leftarrow> read_at (voxels g) idx;
           let p0 = (if isnan (prob_log org_ov) then Fin 0 else prob_log org_ov);
           let p1 = fadd p0 (if occupied then prob_hit_log g else prob_miss_log g);
           let p2 = std_min (std_max p1 (clamping_thres_min g)) (clamping_thres_max g);
           vs \<leftarrow> write_at (voxels g) idx (org_ov\<lparr>prob_log := p2, grid_index := voxel\<rparr>);
           Some (g\<lparr>voxels := vs\<rparr>)
         })"

text \<open>
  \<open>add_occupancy_functor\<close> runs on the device: no test of the index, and the clamp is
  made with the device's \<open>min\<close> and \<open>max\<close>.
\<close>

definition add_occupancy_functor :: "bool \<Rightarrow> OccupancyGrid \<Rightarrow> Vector3i \<Rightarrow> OccupancyGrid option" where
  "add_occupancy_functor occupied g voxel =
     (let idx = to_size_t (IndexOf voxel (resolution g)) in
      do {
        v \<leftarrow> read_at (voxels g) idx;
        let p0 = (if isnan (prob_log v) then Fin 0 else prob_log v);
        let p1 = fadd p0 (if occupied then prob_hit_log g else prob_miss_log g);
        let p2 = fminf (fmaxf p1 (clamping_thres_min g)) (clamping_thres_max g);
        vs \<leftarrow> write_at (voxels g) idx (v\<lparr>prob_log := p2, grid_index := voxel\<rparr>);
        Some (g\<lparr>voxels := vs\<rparr>)
      })"

definition AddVoxels :: "OccupancyGrid \<Rightarrow> Vector3i list \<Rightarrow> bool \<Rightarrow> OccupancyGrid option" where
  "AddVoxels g vs occupied = for_each (add_occupancy_functor occupied) g vs"

subsection \<open>Insert\<close>

text \<open>
  The test of the \<open>remove_if\<close> in \<open>ComputeFreeVoxels\<close> and \<open>ComputeOccupiedVoxels\<close>:
  \<open>max_idx\<close> is the \<open>size_t\<close> made from \<open>resolution * resolution * resolution\<close>, and
  a component that is compared with it has passed the test \<open>< 0\<close>.
\<close>

definition outside_grid :: "int \<Rightarrow> Vector3i \<Rightarrow> bool" where
  "outside_grid max_idx idx =
     (let (i, j, k) = idx in
      i < 0 \<or> j < 0 \<or> k < 0 \<or>
      to_size_t i \<ge> max_idx \<or> to_size_t j \<ge> max_idx \<or> to_size_t k \<ge> max_idx)"

text \<open>
  \<open>ComputeFreeVoxels\<close>. The functor \<open>func\<close> stands for
  \<open>compute_intersect_voxel_segment_functor\<close>, which maps each of the
  \<open>n_div * n_points * 7\<close> sample numbers to a candidate: the shifted grid coordinate of
  the sample when the segment test passes, the sentinel otherwise. Its body is
  floating-point geometry around \<open>LineSegmentAABB\<close> (intersection_test.h, not among the
  sources), so it is a parameter. The candidates are filtered, sorted and made unique.
\<close>

definition ComputeFreeVoxels ::
    "(nat \<Rightarrow> Vector3i) \<Rightarrow> nat \<Rightarrow> int \<Rightarrow> nat \<Rightarrow> Vector3i list \<Rightarrow> Vector3i list" where
  "ComputeFreeVoxels func n_points res n_div free_voxels =
     (if n_points = 0 then free_voxels
      else
        (let max_idx = to_size_t (res * res * res);
             candidates = map func [0..<n_div * n_points * 7];
             end1 = filter (\<lambda>idx. \<not> outside_grid max_idx idx) candidates
         in remdups_adj (sort end1)))"

text \<open>
  \<open>ComputeOccupiedVoxels\<close>, likewise from the results of
  \<open>create_occupancy_voxels_functor\<close> for the ranged points.
\<close>

definition ComputeOccupiedVoxels :: "Vector3i list \<Rightarrow> int \<Rightarrow> Vector3i list" where
  "ComputeOccupiedVoxels candidates res =
     (let max_idx = to_size_t (res * res * res);
          end1 = filter (\<lambda>idx. \<not> outside_grid max_idx idx) candidates
      in remdups_adj (sort end1))"

text \<open>
  \<open>Insert\<close>, from the point where \<open>n_div\<close> and the candidates of the two functors
  are known: the ranging of the points and the candidates are floating-point geometry and
  are not modelled. Nothing happens for an empty point list. Otherwise the free voxels
  that are also occupied are taken out, then both lists update the array.
\<close>

definition Insert ::
    "OccupancyGrid \<Rightarrow> nat \<Rightarrow> int \<Rightarrow> (nat \<Rightarrow> Vector3i) \<Rightarrow> Vector3i list \<Rightarrow> OccupancyGrid option" where
  "Insert g n_points n_div func occupied_candidates =
     (if n_points = 0 then Some g else
      let free_voxels =
            (if 0 < n_div
             then ComputeFreeVoxels func n_points (resolution g) (nat (n_div + 1)) []
             else []);
          occupied_voxels = ComputeOccupiedVoxels occupied_candidates (resolution g)
      in if 0 < n_div then
           do {
             g1 \<leftarrow> AddVoxels g (set_difference (<) free_voxels occupied_voxels) False;
             AddVoxels g1 occupied_voxels True
           }
         else AddVoxels g occupied_voxels True)"

text \<open>Sequences of updates of one grid.\<close>

datatype update =
    CallAddVoxel Vector3i bool
  | CallAddVoxels "Vector3i list" bool
  | CallInsert nat int "nat \<Rightarrow> Vector3i" "Vector3i list"

fun apply_update :: "OccupancyGrid \<Rightarrow> update \<Rightarrow> OccupancyGrid option" where
  "apply_update g (CallAddVoxel v occupied) = AddVoxel g v occupied"
| "apply_update g (CallAddVoxels vs occupied) = AddVoxels g vs occupied"
| "apply_update g (CallInsert n_points n_div func occ) = Insert g n_points n_div func occ"

definition updates :: "OccupancyGrid \<Rightarrow> update list \<Rightarrow> OccupancyGrid option" where
  "updates g us = for_each apply_update g us"

text \<open>
  Every voxel is unobserved; every log-odds value is not a number or lies between the two
  clamping thresholds.
\<close>

definition all_unknown :: "OccupancyGrid \<Rightarrow> bool" where
  "all_unknown g = list_all (\<lambda>v. isnan (prob_log v)) (voxels g)"

definition clamped :: "float \<Rightarrow> float \<Rightarrow> float \<Rightarrow> bool" where
  "clamped lo hi p = (isnan p \<or> (fle lo p \<and> fle p hi))"

definition prob_log_clamped :: "OccupancyGrid \<Rightarrow> bool" where
  "prob_log_clamped g =
     list_all (\<lambda>v. clamped (clamping_thres_min g) (clamping_thres_max g) (prob_log v)) (voxels g)"

text \<open>The same, for a grid with the thresholds \<open>lo\<close> and \<open>hi\<close>.\<close>

definition kept :: "float \<Rightarrow> float \<Rightarrow> OccupancyGrid \<Rightarrow> bool" where
  "kept lo hi g =
     (prob_log_clamped g \<and> clamping_thres_min g = lo \<and> clamping_thres_max g = hi)"

text \<open>Every component of a grid coordinate lies in \<open>[0, r)\<close>.\<close>

definition inside_cube :: "int \<Rightarrow> Vector3i \<Rightarrow> bool" where
  "inside_cube r v =
     (let (i, j, k) = v in 0 \<le> i \<and> i < r \<and> 0 \<le> j \<and> j < r \<and> 0 \<le> k \<and> k < r)"

subsection \<open>Concrete grids\<close>

text \<open>A grid of \<open>4\<^sup>3\<close> voxels of side 1 around the origin.\<close>

definition grid4 :: OccupancyGrid where
  "grid4 = OccupancyGrid_init (Fin 1) 4 (Fin 0, Fin 0, Fin 0)"

text \<open>
  The same grid after one hit in the voxel \<open>(3, 0, 3)\<close>, which has the linear index
  \<open>3 + 0 \<cdot> 4 + 3 \<cdot> 16 = 51\<close>. The coordinate \<open>(-1, 17, -1)\<close> has the same linear
  index, \<open>-1 + 17 \<cdot> 4 - 16 = 51\<close>, and both keep it when the roles of the first and the
  last component are exchanged.
\<close>

definition grid4_hit :: OccupancyGrid where
  "grid4_hit =
     grid4\<lparr>voxels := (voxels grid4)
       [51 := \<lparr>grid_index = (3, 0, 3), color = (Fin 0, Fin 0, Fin 1), prob_log = Fin 0.85\<rparr>]\<rparr>"

text \<open>
  The values of \<open>compute_intersect_voxel_segment_functor\<close> for \<open>grid4\<close>, the
  viewpoint \<open>(-1.25, 0.25, 0.25)\<close> and the single point \<open>(3.75, 0.25, 0.25)\<close>. The
  distance is 5, so \<open>Insert\<close> asks for six samples, one unit apart along the x axis;
  sample \<open>s\<close> is number \<open>idx div 7\<close> and the neighbour offset is number \<open>idx mod 7\<close>.
  Sample \<open>s\<close> has the floored coordinate \<open>(s - 2, 0, 0)\<close>; the box of side 1 around
  \<open>(s - 2, 0, 0)\<close> plus the offset is tested against the segment, which runs from
  \<open>-1.25\<close> to \<open>3.75\<close> in x at height \<open>0.25\<close> in y and z. The box of offset 0 meets
  it from sample 1 on, that of offset \<open>(1, 0, 0)\<close> always, that of offset
  \<open>(-1, 0, 0)\<close> from sample 2 on, the four others never. A passed test gives the
  coordinate of the sample plus half the resolution, a failed one the sentinel, here the
  least \<open>int\<close>.
\<close>

definition ray_candidates :: "nat \<Rightarrow> Vector3i" where
  "ray_candidates idx =
     (let sidx = idx div 7; vidx = idx mod 7 in
      if vidx = 1 \<or> (vidx = 0 \<and> 1 \<le> sidx) \<or> (vidx = 2 \<and> 2 \<le> sidx)
      then (int sidx, 2, 2)
      else (- 2147483648, - 2147483648, - 2147483648))"

text \<open>
  Six hits in one voxel, one of them together with a hit in the voxel at the corner; then
  the ray above, whose end point has the grid coordinate \<open>(5, 2, 2)\<close>; then a miss
  outside the array.
\<close>

definition sample_updates :: "update list" where
  "sample_updates =
     [CallAddVoxel (1, 3, 2) True, CallAddVoxels [(1, 3, 2), (0, 0, 0)] True,
      CallAddVoxels [(1, 3, 2)] True, CallAddVoxels [(1, 3, 2)] True,
      CallAddVoxel (1, 3, 2) True, CallAddVoxel (1, 3, 2) True,
      CallInsert 1 5 ray_candidates [(5, 2, 2)], CallAddVoxel (9, 9, 9) False]"

section \<open>Properties\<close>

text \<open>
  C9. When the weight list is not empty and its length differs from that of the edge list,
  \<open>AddEdges\<close> reports \<open>SizeMismatch\<close> and hands back the graph it was given: edges,
  weights, colours and offsets are those of the graph passed in.
\<close>

theorem AddEdges_size_mismatch:
  assumes "W \<noteq> []" and "length W \<noteq> length E"
  shows "AddEdges g E W = Err SizeMismatch g"
  using assms by (simp add: AddEdges_def)

theorem AddEdges_size_mismatch_witness:
  "[Fin 1, Fin 2] \<noteq> [] \<and> length [Fin 1, Fin 2] \<noteq> length [(0, 1) :: Vector2i] \<and>
   AddEdges (empty_graph [] False) [(0, 1)] [Fin 1, Fin 2]
     = Err SizeMismatch (empty_graph [] False)"
  using AddEdges_size_mismatch [of "[Fin 1, Fin 2]" "[(0, 1)]" "empty_graph [] False"]
  by simp

subsection \<open>Row alignment of the weights\<close>

lemma length_resize: "length (resize xs n x) = n"
  by (simp add: resize_def)

lemma sort_edges_aligned:
  assumes "colors g = []" and "lines g \<noteq> []"
  shows "aligned (sort_edges g)"
  using assms
  by (auto simp: aligned_def sort_edges_def HasColors_def HasWeights_def sort_by_key_def
      length_resize Let_def split: prod.splits)


text \<open>Every mutator ends in \<open>ConstructGraph\<close>, on a graph of the following shape.\<close>

lemma AddEdge_shape:
  assumes "colors g = []"
  shows "\<exists>g3. AddEdge g e w = ConstructGraph g3 \<and> colors g3 = [] \<and> lines g3 \<noteq> []"
  unfolding AddEdge_def Let_def
  apply (intro exI conjI)
    apply (rule refl)
  using assms by (simp_all add: HasColors_def)

lemma AddEdges_shape:
  assumes "colors g = []" and "length (edge_weights g) = length (lines g)"
    and "\<not> (ws \<noteq> [] \<and> length es \<noteq> length ws)"
  shows "\<exists>g4. AddEdges g es ws = ConstructGraph g4 \<and> colors g4 = [] \<and>
              (lines g4 = [] \<longrightarrow> edge_weights g4 = [])"
proof -
  have "AddEdges g es ws = ConstructGraph
     (let n_old_lines = length (lines g);
          g1 = g\<lparr>lines := lines g @ es\<rparr>;
          g2 = (if \<not> is_directed g1
                then g1\<lparr>lines := lines g1 @ map reverse_index es\<rparr>
                else g1);
          g3 = (if ws = [] then
                  (let wts = (if \<not> is_directed g2
                              then resize (edge_weights g2) (2 * length (lines g2)) (Fin 0)
                              else resize (edge_weights g2) (length (lines g2)) (Fin 0))
                   in g2\<lparr>edge_weights := fill_from wts n_old_lines (Fin 1)\<rparr>)
                else
                  (let wts = edge_weights g2 @ ws
                   in g2\<lparr>edge_weights := (if \<not> is_directed g2 then wts @ ws else wts)\<rparr>));
          g4 = (if HasColors g3
                then g3\<lparr>colors :=
                        fill_from (resize (colors g3) (length (lines g3)) (Fin 0, Fin 0, Fin 0))
                          n_old_lines Ones\<rparr>
                else g3)
      in g4)" (is "_ = ConstructGraph ?g4")
    using assms(3) by (cases "ws = []") (simp_all add: AddEdges_def Let_def)
  moreover have "colors ?g4 = []"
    using assms(1) by (auto simp: Let_def HasColors_def)
  moreover have "lines ?g4 = [] \<longrightarrow> edge_weights ?g4 = []"
    using assms(2,3) by (auto simp: Let_def HasColors_def resize_def fill_from_def)
  ultimately show ?thesis by blast
qed

lemma RemoveEdge_shape:
  assumes "aligned g"
  shows "\<exists>g1. RemoveEdge g e = ConstructGraph g1 \<and> colors g1 = [] \<and>
              (lines g1 = [] \<longrightarrow> edge_weights g1 = [])"
  unfolding RemoveEdge_def Let_def
  apply (intro exI conjI)
    apply (rule refl)
  using assms by (auto simp: aligned_def HasColors_def HasWeights_def)







text \<open>
  A call of \<open>AddEdge\<close>, \<open>AddEdges\<close> or \<open>RemoveEdge\<close> leaves a vector only in the
  computation of the offsets, the last step of \<open>ConstructGraph\<close>: the edges and the
  weights that it has sorted by then are row-aligned.
\<close>

lemma aligned_before_offsets:
  assumes "aligned g" and "call cmp g m = OutOfBounds"
    and "\<forall>es. m \<noteq> CallRemoveEdges es"
  shows "\<exists>g1. call cmp g m = ConstructGraph g1 \<and> lines g1 \<noteq> [] \<and>
              aligned (sort_edges g1) \<and> build_offsets (sort_edges g1) = None"
proof -
  have shape: "\<exists>g1. call cmp g m = ConstructGraph g1 \<and> colors g1 = []"
  proof (cases m)
    case (CallAddEdge ed w)
    with assms(1) show ?thesis
      using AddEdge_shape [of g ed w] by (auto simp: aligned_def)
  next
    case (CallAddEdges es ws)
    have "\<not> (ws \<noteq> [] \<and> length es \<noteq> length ws)"
    proof
      assume "ws \<noteq> [] \<and> length es \<noteq> length ws"
      then have "AddEdges g es ws = Err SizeMismatch g"
        by (simp add: AddEdges_def)
      with assms(2) CallAddEdges show False by simp
    qed
    with assms(1) CallAddEdges show ?thesis
      using AddEdges_shape [of g ws es] by (auto simp: aligned_def)
  next
    case (CallRemoveEdge ed)
    with assms(1) show ?thesis
      using RemoveEdge_shape [of g ed] by auto
  next
    case (CallRemoveEdges es)
    with assms(3) show ?thesis by simp
  qed
  then obtain g1 where g1: "call cmp g m = ConstructGraph g1" and c: "colors g1 = []"
    by blast
  from g1 assms(2) have ne: "lines g1 \<noteq> []" and off: "build_offsets (sort_edges g1) = None"
    by (auto simp: ConstructGraph_def Let_def split: if_splits option.splits)
  from c ne have "aligned (sort_edges g1)" by (rule sort_edges_aligned)
  with g1 ne off show ?thesis by blast
qed

subsection \<open>Evaluations\<close>

text \<open>
  C1. The directed path 0, 1, 2 with unit weights is what \<open>AddEdges\<close> builds from the two
  edges on a directed graph without edges, and it is constructed. From vertex 0,
  \<open>DijkstraPaths\<close> without target ends with the distances 0, \<open>+\<infinity>\<close>, \<open>+\<infinity>\<close>; the
  reference computation on the same edges and weights gives 0, 1, 2.
\<close>

theorem DijkstraPaths_directed_path:
  "AddEdges (empty_graph three_points True) [(0, 1), (1, 2)] [] = Ok directed_path \<and>
   IsConstructed directed_path \<and>
   DijkstraPaths directed_path 0 (- 1)
     = Some (Ok [\<lparr>shortest_distance = Fin 0, prev_index = 0\<rparr>,
                 \<lparr>shortest_distance = PosInf, prev_index = - 1\<rparr>,
                 \<lparr>shortest_distance = PosInf, prev_index = - 1\<rparr>]) \<and>
   reference_dijkstra 3 (lines directed_path) (edge_weights directed_path) 0
     = [Fin 0, Fin 1, Fin 2]"
  by code_simp

text \<open>
  On the undirected path every vertex has an incoming edge, and \<open>DijkstraPaths\<close> gives
  the distances of the reference computation (scenario 2 of the specification).
\<close>

lemma DijkstraPaths_undirected_path:
  "AddEdges (empty_graph three_points False) [(0, 1), (1, 2)] [] = Ok undirected_path \<and>
   DijkstraPaths undirected_path 0 (- 1)
     = Some (Ok [\<lparr>shortest_distance = Fin 0, prev_index = 0\<rparr>,
                 \<lparr>shortest_distance = Fin 1, prev_index = 0\<rparr>,
                 \<lparr>shortest_distance = Fin 2, prev_index = 1\<rparr>]) \<and>
   reference_dijkstra 3 (lines undirected_path) (edge_weights undirected_path) 0
     = [Fin 0, Fin 1, Fin 2]"
  by code_simp

text \<open>
  C5. On the undirected graph that \<open>AddEdge\<close> builds from the edge \<open>(0, 1)\<close>,
  \<open>RemoveEdges\<close> with that edge does not come back with a graph: its first
  difference, the row of \<open>(1, 0)\<close>, is written outside the new arrays.
\<close>

theorem RemoveEdges_writes_outside:
  "AddEdge (empty_graph three_points False) (0, 1) (Fin 1) = Ok single_edge \<and>
   set_difference (\<lambda>a b. fst b < fst a) (zip (lines single_edge) (edge_weights single_edge))
       [((0, 1), Fin 1)]
     = [((1, 0), Fin 1)] \<and>
   RemoveEdges (\<lambda>a b. b < a) single_edge [(0, 1)] = OutOfBounds"
  by code_simp

text \<open>
  C6. \<open>ConstructGraph\<close> on a graph with one coloured edge and an empty weight array
  completes and leaves the weight array empty.
\<close>

theorem ConstructGraph_coloured_no_weights:
  "ConstructGraph coloured_edge
     = Ok \<lparr>points = three_points, lines = [(0, 1)], colors = [Ones],
           edge_index_offsets = [0, 1, 1, 1], edge_weights = [], node_colors = [],
           is_directed = True\<rparr>"
  by code_simp

text \<open>
  C7. \<open>PaintNodesColor\<close> with the node list \<open>[2]\<close> and the colour red on a graph of
  three vertices paints vertex 0 and leaves vertex 2 white.
\<close>

theorem PaintNodesColor_paints_prefix:
  "PaintNodesColor (empty_graph three_points False) [2] (Fin 1, Fin 0, Fin 0)
     = Ok \<lparr>points = three_points, lines = [], colors = [], edge_index_offsets = [],
           edge_weights = [], node_colors = [(Fin 1, Fin 0, Fin 0), Ones, Ones],
           is_directed = False\<rparr>"
  by code_simp

text \<open>
  C3. For the grid of resolution 4 and the ray of \<open>ray_candidates\<close>, whose end point
  lies outside the grid, \<open>ComputeFreeVoxels\<close> returns six voxels; the coordinates
  \<open>(4, 2, 2)\<close> and \<open>(5, 2, 2)\<close> among them lie outside the cube \<open>[0, 4)\<^sup>3\<close>: the
  filter compares every component with \<open>4\<^sup>3 = 64\<close>.
\<close>

theorem ComputeFreeVoxels_keeps_outside:
  "ComputeFreeVoxels ray_candidates 1 4 6 []
     = [(0, 2, 2), (1, 2, 2), (2, 2, 2), (3, 2, 2), (4, 2, 2), (5, 2, 2)] \<and>
   \<not> inside_cube 4 (4, 2, 2) \<and> \<not> inside_cube 4 (5, 2, 2)"
  by code_simp

text \<open>
  C4. After one hit in voxel \<open>(3, 0, 3)\<close> of the grid of resolution 4, the point
  \<open>(-2.5, 15.5, -2.5)\<close> has the grid coordinate \<open>(-1, 17, -1)\<close>, with every component
  outside \<open>[0, 4)\<close>, and the linear index 51 of that voxel: \<open>IsOccupied\<close> answers true
  and \<open>IsUnknown\<close> answers false.
\<close>

theorem IsOccupied_outside_cube:
  "AddVoxel grid4 (3, 0, 3) True = Some grid4_hit \<and>
   grid_coordinate grid4_hit (Fin (- 2.5), Fin 15.5, Fin (- 2.5)) = Some (- 1, 17, - 1) \<and>
   \<not> inside_cube (resolution grid4_hit) (- 1, 17, - 1) \<and>
   IsOccupied grid4_hit (Fin (- 2.5), Fin 15.5, Fin (- 2.5)) = Some True \<and>
   IsUnknown grid4_hit (Fin (- 2.5), Fin 15.5, Fin (- 2.5)) = Some False"
  by code_simp

subsection \<open>Clamping of the log-odds\<close>

lemma clamp_host:
  assumes "fle lo hi"
  shows "clamped lo hi (std_min (std_max p lo) hi)"
  using assms
  by (cases p; cases lo; cases hi) (simp_all add: clamped_def fle_def std_min_def std_max_def)

lemma clamp_device:
  assumes "fle lo hi"
  shows "clamped lo hi (fminf (fmaxf p lo) hi)"
  using assms
  by (cases p; cases lo; cases hi) (simp_all add: clamped_def fle_def fminf_def fmaxf_def)

lemma write_at_list_all:
  assumes "list_all P xs" and "P x" and "write_at xs i x = Some ys"
  shows "list_all P ys"
proof -
  from assms(3) have ys: "ys = xs[nat i := x]"
    by (simp add: write_at_def split: if_splits)
  have "set (xs[nat i := x]) \<subseteq> insert x (set xs)"
    by (rule set_update_subset_insert)
  with assms(1,2) ys show ?thesis
    by (auto simp: list_all_iff)
qed

lemma for_each_invariant:
  assumes step: "\<And>s x s'. I s \<Longrightarrow> f s x = Some s' \<Longrightarrow> I s'"
    and "I s" and "for_each f s xs = Some s'"
  shows "I s'"
  using assms(2,3)
proof (induction xs arbitrary: s)
  case Nil
  then show ?case by simp
next
  case (Cons x xs)
  then show ?case
    by (auto split: option.splits dest: step)
qed

lemma AddVoxel_kept:
  assumes "fle lo hi" and "kept lo hi g" and "AddVoxel g v occupied = Some g'"
  shows "kept lo hi g'"
proof (cases "IndexOf v (resolution g) < 0 \<or>
    to_size_t (IndexOf v (resolution g)) \<ge> to_size_t (resolution g * resolution g * resolution g)")
  case True
  with assms(2,3) show ?thesis by (simp add: AddVoxel_def Let_def)
next
  case False
  with assms(3) obtain org_ov vs where
    vs: "write_at (voxels g) (IndexOf v (resolution g))
           (org_ov\<lparr>prob_log := std_min (std_max
              (fadd (if isnan (prob_log org_ov) then Fin 0 else prob_log org_ov)
                 (if occupied then prob_hit_log g else prob_miss_log g))
              (clamping_thres_min g)) (clamping_thres_max g), grid_index := v\<rparr>) = Some vs"
    and g': "g' = g\<lparr>voxels := vs\<rparr>"
    by (auto simp: AddVoxel_def Let_def split: bind_splits)
  from assms(1,2) have "list_all (\<lambda>v. clamped lo hi (prob_log v)) vs"
    by (intro write_at_list_all [OF _ _ vs]) (auto simp: kept_def prob_log_clamped_def clamp_host)
  with assms(2) g' show ?thesis by (simp add: kept_def prob_log_clamped_def)
qed

lemma add_occupancy_functor_kept:
  assumes "fle lo hi" and "kept lo hi g" and "add_occupancy_functor occupied g v = Some g'"
  shows "kept lo hi g'"
proof -
  from assms(3) obtain ov vs where
    vs: "write_at (voxels g) (to_size_t (IndexOf v (resolution g)))
           (ov\<lparr>prob_log := fminf (fmaxf
              (fadd (if isnan (prob_log ov) then Fin 0 else prob_log ov)
                 (if occupied then prob_hit_log g else prob_miss_log g))
              (clamping_thres_min g)) (clamping_thres_max g), grid_index := v\<rparr>) = Some vs"
    and g': "g' = g\<lparr>voxels := vs\<rparr>"
    by (auto simp: add_occupancy_functor_def Let_def split: bind_splits)
  from assms(1,2) have "list_all (\<lambda>v. clamped lo hi (prob_log v)) vs"
    by (intro write_at_list_all [OF _ _ vs]) (auto simp: kept_def prob_log_clamped_def clamp_device)
  with assms(2) g' show ?thesis by (simp add: kept_def prob_log_clamped_def)
qed

lemma AddVoxels_kept:
  assumes "fle lo hi" and "kept lo hi g" and "AddVoxels g vs occupied = Some g'"
  shows "kept lo hi g'"
  using assms(2,3) unfolding AddVoxels_def
  by (rule for_each_invariant [rotated]) (rule add_occupancy_functor_kept [OF assms(1)])

lemma Insert_kept:
  assumes "fle lo hi" and "kept lo hi g" and "Insert g n_points n_div func occ = Some g'"
  shows "kept lo hi g'"
proof (cases "n_points = 0")
  case True
  with assms(2,3) show ?thesis by (simp add: Insert_def)
next
  case points: False
  show ?thesis
  proof (cases "0 < n_div")
  case True
  with points assms(3) obtain g1 where
    g1: "AddVoxels g (set_difference (<)
           (ComputeFreeVoxels func n_points (resolution g) (nat (n_div + 1)) [])
           (ComputeOccupiedVoxels occ (resolution g))) False = Some g1"
    and g': "AddVoxels g1 (ComputeOccupiedVoxels occ (resolution g)) True = Some g'"
    by (auto simp: Insert_def Let_def split: bind_splits if_splits)
  from assms(1,2) g1 have "kept lo hi g1" by (rule AddVoxels_kept)
  with assms(1) show ?thesis using g' by (rule AddVoxels_kept)
next
  case False
  with points assms(3)
  have "AddVoxels g (ComputeOccupiedVoxels occ (resolution g)) True = Some g'"
    by (simp add: Insert_def Let_def)
  with assms(1,2) show ?thesis by (rule AddVoxels_kept)
qed
qed

lemma apply_update_kept:
  assumes "fle lo hi" and "kept lo hi g" and "apply_update g u = Some g'"
  shows "kept lo hi g'"
  using assms
  by (cases u) (auto intro: AddVoxel_kept AddVoxels_kept Insert_kept)

lemma all_unknown_clamped: "all_unknown g \<Longrightarrow> prob_log_clamped g"
  by (auto simp: all_unknown_def prob_log_clamped_def clamped_def list_all_iff)

text \<open>
  C8. Let the lower clamping threshold be at most the upper one. A grid in which every
  voxel is unobserved has every log-odds value not a number or between the thresholds, and
  a grid with that property keeps it, and its thresholds, through every sequence of
  \<open>AddVoxel\<close>, \<open>AddVoxels\<close> and \<open>Insert\<close> calls that stays inside the voxel array.
\<close>

theorem prob_log_stays_clamped:
  assumes "fle (clamping_thres_min g) (clamping_thres_max g)"
    and "all_unknown g \<or> prob_log_clamped g"
    and "updates g us = Some g'"
  shows "prob_log_clamped g' \<and> clamping_thres_min g' = clamping_thres_min g \<and>
         clamping_thres_max g' = clamping_thres_max g"
proof -
  from assms(2) have "kept (clamping_thres_min g) (clamping_thres_max g) g"
    by (auto simp: kept_def all_unknown_clamped)
  moreover from assms(3) have "for_each apply_update g us = Some g'"
    by (simp add: updates_def)
  ultimately have "kept (clamping_thres_min g) (clamping_thres_max g) g'"
    by (rule for_each_invariant [rotated]) (rule apply_update_kept [OF assms(1)])
  then show ?thesis by (simp add: kept_def)
qed

theorem prob_log_stays_clamped_witness:
  "fle (clamping_thres_min grid4) (clamping_thres_max grid4) \<and> all_unknown grid4 \<and>
   (case updates grid4 sample_updates of
      None \<Rightarrow> False
    | Some g' \<Rightarrow>
        prob_log (voxels g' ! 45) = Fin 3.5 \<and> prob_log_clamped g' \<and>
        clamping_thres_min g' = clamping_thres_min grid4 \<and>
        clamping_thres_max g' = clamping_thres_max grid4)"
proof -
  have lo_hi: "fle (clamping_thres_min grid4) (clamping_thres_max grid4)"
    by code_simp
  have fresh: "all_unknown grid4"
    by code_simp
  have "case updates grid4 sample_updates of
          None \<Rightarrow> False | Some g' \<Rightarrow> prob_log (voxels g' ! 45) = Fin 3.5"
    by code_simp
  then obtain g' where run: "updates grid4 sample_updates = Some g'"
    and hit: "prob_log (voxels g' ! 45) = Fin 3.5"
    by (auto split: option.splits)
  from prob_log_stays_clamped [OF lo_hi disjI1 [OF fresh] run] lo_hi fresh run hit
  show ?thesis by simp
qed

end
